theory Spec2Isabelle
  imports Main
begin

section \<open>JavaScript values\<close>

text \<open>
  The values that flow through the cache: results of workers, stored entries, errors,
  sentinels. A JavaScript number is a finite number or one of the three special values;
  the finite ones are taken as integers (retry counts, delays in milliseconds).
  Error objects carry their constructor name and message.
\<close>

datatype jsnum = Fin int | PosInf | NegInf | NaN

datatype jsval =
    Undefined
  | Null
  | JBool bool
  | JNum jsnum
  | JStr string
  | JError string string

text \<open>Truthiness, as \<^verbatim>\<open>!x\<close> and \<^verbatim>\<open>a && b\<close> test it.\<close>

fun truthy :: "jsval \<Rightarrow> bool" where
  "truthy Undefined = False"
| "truthy Null = False"
| "truthy (JBool b) = b"
| "truthy (JNum (Fin n)) = (n \<noteq> 0)"
| "truthy (JNum NaN) = False"
| "truthy (JNum _) = True"
| "truthy (JStr s) = (s \<noteq> [])"
| "truthy (JError _ _) = True"

text \<open>
  \<^verbatim>\<open>a !== b\<close>: values differ, and \<^verbatim>\<open>NaN\<close> differs from itself.
\<close>

definition strict_neq :: "jsval \<Rightarrow> jsval \<Rightarrow> bool" where
  "strict_neq a b = (a = JNum NaN \<or> a \<noteq> b)"

text \<open>
  The global \<^verbatim>\<open>isFinite(x)\<close> converts its argument to a number first; the model takes
  the delay after that conversion (an \<^verbatim>\<open>undefined\<close> delay is \<^verbatim>\<open>NaN\<close>).
\<close>

fun isFinite :: "jsnum \<Rightarrow> bool" where
  "isFinite (Fin _) = True"
| "isFinite _ = False"

section \<open>The cache store and the world of one memoization call\<close>

text \<open>
  \<^verbatim>\<open>app.cache\<close> is an instance of an external key-value cache. An entry is the value and
  the expiry string it was stored with, if one was given. Reads and writes are
  asynchronous and may reject: \<open>get_fault\<close> and \<open>set_fault\<close> say with what.
  The world also counts the invocations of the worker and records the delays handed to
  \<^verbatim>\<open>setTimeout\<close>.
\<close>

record world =
  entries :: "jsval \<rightharpoonup> jsval \<times> string option"
  sets :: "(jsval \<times> jsval \<times> string option) list"
  get_fault :: "jsval option"
  set_fault :: "jsval option"
  invocations :: nat
  timers :: "jsnum list"

text \<open>\<^verbatim>\<open>app.cache.get(id, fallback)\<close>: the stored value, or the fallback when there is none.\<close>

definition cache_get :: "jsval \<Rightarrow> jsval \<Rightarrow> world \<Rightarrow> jsval + jsval" where
  "cache_get k fallback w =
     (case get_fault w of
        Some e \<Rightarrow> Inl e
      | None \<Rightarrow> (case entries w k of None \<Rightarrow> Inr fallback | Some (v, _) \<Rightarrow> Inr v))"

text \<open>\<^verbatim>\<open>app.cache.set(id, value, expiry?)\<close>.\<close>

definition cache_set :: "jsval \<Rightarrow> jsval \<Rightarrow> string option \<Rightarrow> world \<Rightarrow> jsval + world" where
  "cache_set k v ex w =
     (case set_fault w of
        Some e \<Rightarrow> Inl e
      | None \<Rightarrow> Inr (w\<lparr>entries := (entries w)(k \<mapsto> (v, ex)), sets := sets w @ [(k, v, ex)]\<rparr>))"

section \<open>Settings of \<^verbatim>\<open>app.cache.function\<close>\<close>

text \<open>
  A hook or a worker returns a value (\<open>Inr\<close>) or throws, respectively rejects (\<open>Inl\<close>).
  The hooks receive the settings of the call as an argument; the settings are fixed
  during one call, so a hook of the model is a function of its other argument.
  \<open>retryDelay\<close> is a number or a function called as \<^verbatim>\<open>(attempt, settings)\<close>.
\<close>

datatype retry_delay = Fixed jsnum | Dynamic "nat \<Rightarrow> jsval + jsnum"

record settings =
  id_s :: jsval
  enabled :: bool
  expiry :: string
  rejectAs :: "jsval option"
  retry :: int
  retryDelay :: retry_delay
  onCached :: "jsval \<Rightarrow> jsval + jsval"
  onRetry :: "jsval \<Rightarrow> nat \<Rightarrow> jsval + jsval"
  invalidStore :: jsval

text \<open>
  What the caller passes: a plain object, of which every key may be missing, or anything
  else, which is taken as the id. \<open>o_rejectAs = Some Undefined\<close> is the key
  \<^verbatim>\<open>rejectAs\<close> present with the value \<^verbatim>\<open>undefined\<close>.
\<close>

record opts =
  o_id :: "jsval option"
  o_enabled :: "bool option"
  o_expiry :: "string option"
  o_rejectAs :: "jsval option"
  o_retry :: "int option"
  o_retryDelay :: "retry_delay option"
  o_onCached :: "(jsval \<Rightarrow> jsval + jsval) option"
  o_onRetry :: "(jsval \<Rightarrow> nat \<Rightarrow> jsval + jsval) option"
  o_invalidStore :: "jsval option"

datatype options = Bare jsval | Plain opts

definition no_opts :: opts where
  "no_opts = \<lparr>o_id = None, o_enabled = None, o_expiry = None, o_rejectAs = None,
     o_retry = None, o_retryDelay = None, o_onCached = None, o_onRetry = None,
     o_invalidStore = None\<rparr>"

definition or_default :: "'a option \<Rightarrow> 'a \<Rightarrow> 'a" where
  "or_default x d = (case x of None \<Rightarrow> d | Some v \<Rightarrow> v)"

text \<open>
  The defaults, overridden by the keys of the options
  (\<^verbatim>\<open>{id: ..., enabled: true, expiry: '1h', retry: 0, retryDelay: 100, ..., ...options}\<close>).
  \<^verbatim>\<open>rejectAs\<close> has no default: the key is on the settings only when the caller put it there.
  The default \<^verbatim>\<open>onRetry\<close> logs the error and returns nothing.
\<close>

fun make_settings :: "options \<Rightarrow> settings" where
  "make_settings (Bare v) =
     \<lparr>id_s = v, enabled = True, expiry = ''1h'', rejectAs = None, retry = 0,
      retryDelay = Fixed (Fin 100), onCached = (\<lambda>value. Inr Undefined),
      onRetry = (\<lambda>e attempt. Inr Undefined), invalidStore = JStr ''!!!UNKNOWN!!!''\<rparr>"
| "make_settings (Plain p) =
     \<lparr>id_s = or_default (o_id p) Undefined,
      enabled = or_default (o_enabled p) True,
      expiry = or_default (o_expiry p) ''1h'',
      rejectAs = o_rejectAs p,
      retry = or_default (o_retry p) 0,
      retryDelay = or_default (o_retryDelay p) (Fixed (Fin 100)),
      onCached = or_default (o_onCached p) (\<lambda>value. Inr Undefined),
      onRetry = or_default (o_onRetry p) (\<lambda>e attempt. Inr Undefined),
      invalidStore = or_default (o_invalidStore p) (JStr ''!!!UNKNOWN!!!'')\<rparr>"

section \<open>The retry loop\<close>

text \<open>
  How the returned promise ends: the call throws before a promise exists, the promise
  resolves, it rejects, or it never settles (neither \<^verbatim>\<open>resolve\<close> nor \<^verbatim>\<open>reject\<close>
  is ever called).
\<close>

datatype outcome = Threw jsval | Resolved jsval | Rejected jsval | Pending

text \<open>
  The worker is a promise factory; its result may depend on how often it has been invoked
  before. \<open>run_worker\<close> is \<^verbatim>\<open>Promise.resolve(worker())\<close>.
\<close>

type_synonym worker = "nat \<Rightarrow> jsval + jsval"

definition run_worker :: "worker \<Rightarrow> world \<Rightarrow> (jsval + jsval) \<times> world" where
  "run_worker wk w = (wk (invocations w), w\<lparr>invocations := Suc (invocations w)\<rparr>)"

text \<open>
  \<^verbatim>\<open>settings.hasOwnProperty('retry')\<close>: the settings object is built with the key.
  The source then compares that boolean with \<^verbatim>\<open>0\<close>, and \<^verbatim>\<open>true > 0\<close> holds.
\<close>

definition hasOwn_retry :: "settings \<Rightarrow> bool" where
  "hasOwn_retry s = True"

definition bool_gt_0 :: "bool \<Rightarrow> bool" where
  "bool_gt_0 b = ((if b then (1::int) else 0) > 0)"

text \<open>
  \<^verbatim>\<open>_.isFunction(settings.retryDelay) ? settings.retryDelay(attempt, settings) : settings.retryDelay\<close>
\<close>

fun useDelay :: "retry_delay \<Rightarrow> nat \<Rightarrow> jsval + jsnum" where
  "useDelay (Fixed d) attempt = Inr d"
| "useDelay (Dynamic f) attempt = f attempt"

text \<open>
  The \<^verbatim>\<open>catch\<close> handler of one attempt, for the error \<open>e\<close> and the attempt counter before
  the handler runs. It either settles the call (or leaves it pending for ever), or
  schedules the next attempt with a delay. The attempt counter is incremented before it
  is compared with \<^verbatim>\<open>settings.retry\<close> and before the hooks see it; an exception thrown
  by \<^verbatim>\<open>onRetry\<close> or by a \<^verbatim>\<open>retryDelay\<close> function goes to the inner
  \<^verbatim>\<open>catch\<close> block.

  In the \<^verbatim>\<open>rejectAs\<close> branch the handler returns
  \<^verbatim>\<open>app.cache.set(settings.id, settings.rejectAs).then(()=> rejectAs)\<close>:
  the store is written without an expiry, the name \<^verbatim>\<open>rejectAs\<close> in the callback is not
  bound to anything (evaluating it throws a \<^verbatim>\<open>ReferenceError\<close> inside a chain nobody
  listens to), and neither \<^verbatim>\<open>resolve\<close> nor \<^verbatim>\<open>reject\<close> is called on this path,
  whether the write succeeds or not.
\<close>

datatype step = Settle outcome world | Again jsnum

text \<open>
  The inner \<^verbatim>\<open>catch (e)\<close> block and the last branch of the handler log
  \<^verbatim>\<open>e.toString()\<close> before they call \<^verbatim>\<open>reject(e)\<close>. For \<^verbatim>\<open>undefined\<close> and
  \<^verbatim>\<open>null\<close> that call throws, inside the handler, and \<^verbatim>\<open>reject\<close> is not reached.
\<close>

fun toString_throws :: "jsval \<Rightarrow> bool" where
  "toString_throws Undefined = True"
| "toString_throws Null = True"
| "toString_throws _ = False"

definition caught :: "jsval \<Rightarrow> world \<Rightarrow> step" where
  "caught x w = (if toString_throws x then Settle Pending w else Settle (Rejected x) w)"

definition on_failure :: "settings \<Rightarrow> jsval \<Rightarrow> nat \<Rightarrow> world \<Rightarrow> step" where
  "on_failure s e attempt w =
     (case rejectAs s of
        Some fallback \<Rightarrow>
          (case cache_set (id_s s) fallback None w of
             Inl x \<Rightarrow> Settle Pending w
           | Inr w' \<Rightarrow> Settle Pending w')
      | None \<Rightarrow>
          if hasOwn_retry s \<and> bool_gt_0 (hasOwn_retry s) then
            (if int (Suc attempt) > retry s then Settle (Rejected e) w
             else
               (case onRetry s e (Suc attempt) of
                  Inl x \<Rightarrow> caught x w
                | Inr retryValue \<Rightarrow>
                    if retryValue \<noteq> Undefined then Settle (Resolved retryValue) w
                    else
                      (case useDelay (retryDelay s) (Suc attempt) of
                         Inl x \<Rightarrow> caught x w
                       | Inr d \<Rightarrow>
                           if \<not> isFinite d
                           then Settle (Rejected (JStr ''Got non-numeric delay for retryDelay'')) w
                           else Again d)))
          else caught e w)"

text \<open>
  \<^verbatim>\<open>tryResolve\<close>: run the worker; on success store the value with the configured expiry
  and resolve with it; an error of the worker or of the store goes to the handler.
  A scheduled attempt runs \<^verbatim>\<open>tryResolve\<close> again with the incremented counter.
\<close>

function tryResolve :: "settings \<Rightarrow> worker \<Rightarrow> nat \<Rightarrow> world \<Rightarrow> outcome \<times> world" where
  "tryResolve s wk attempt w =
     (let (r, w1) = run_worker wk w;
          failed = (\<lambda>e. case on_failure s e attempt w1 of
                      Settle oc w2 \<Rightarrow> (oc, w2)
                    | Again d \<Rightarrow> tryResolve s wk (Suc attempt) (w1\<lparr>timers := timers w1 @ [d]\<rparr>))
      in case r of
           Inr v \<Rightarrow>
             (case cache_set (id_s s) v (Some (expiry s)) w1 of
                Inr w2 \<Rightarrow> (Resolved v, w2)
              | Inl e \<Rightarrow> failed e)
         | Inl e \<Rightarrow> failed e)"
  by pat_completeness auto
termination
  by (relation "measure (\<lambda>(s, wk, attempt, w). nat (retry s - int attempt))")
     (auto simp: on_failure_def caught_def split: if_splits sum.splits option.splits)

section \<open>\<^verbatim>\<open>app.cache.function\<close>\<close>

text \<open>
  What the caller passes as the worker: a promise factory, a promise that is already
  running, or something that is not a function.
\<close>

datatype worker_arg = Factory worker | StartedPromise | NotAFunction

text \<open>
  The hit path runs \<^verbatim>\<open>onCached\<close> in a promise chain of its own that ends in
  \<^verbatim>\<open>resolve(output)\<close>; when the hook throws, that chain rejects and the promise of the
  call is left unsettled.
\<close>

definition on_hit :: "settings \<Rightarrow> jsval \<Rightarrow> outcome" where
  "on_hit s res =
     (case onCached s res of
        Inl x \<Rightarrow> Pending
      | Inr output \<Rightarrow> Resolved (if output \<noteq> Undefined then output else res))"

definition cache_function :: "options \<Rightarrow> worker_arg \<Rightarrow> world \<Rightarrow> outcome \<times> world" where
  "cache_function options worker w =
     (let s = make_settings options in
      if \<not> truthy (id_s s)
      then (Threw (JError ''Error'' ''No ID specified for app.cache.function(id, worker)''), w)
      else
        (case worker of
           StartedPromise \<Rightarrow>
             (Threw (JError ''Error''
                ''app.cache.function must be passed a PROMISE FACTORY not an already executing PROMISE''), w)
         | NotAFunction \<Rightarrow>
             (Threw (JError ''Error'' ''app.cache.function worker must be a function''), w)
         | Factory wk \<Rightarrow>
             if \<not> enabled s then
               (case run_worker wk w of
                  (Inr v, w1) \<Rightarrow> (Resolved v, w1)
                | (Inl e, w1) \<Rightarrow> (Rejected e, w1))
             else
               (case cache_get (id_s s) (invalidStore s) w of
                  Inl e \<Rightarrow> (Rejected e, w)
                | Inr res \<Rightarrow>
                    if strict_neq res (invalidStore s) then (on_hit s res, w)
                    else tryResolve s wk 0 w)))"

section \<open>The file cache middleware: requests, responses, files\<close>

text \<open>
  What a handler may pass to \<^verbatim>\<open>res.cacheSend\<close>: a string, a byte buffer, a readable stream,
  or any other value. A stream delivers its data and then ends, or fails with an error
  after the data.
\<close>

datatype stream = Stream string "jsval option"

datatype content = CString string | CBuffer "nat list" | CReadable stream | COther jsval

text \<open>
  The right-hand sides of the two \<^verbatim>\<open>instanceof\<close> tests of the source.
  \<^verbatim>\<open>Stream.Readable\<close> is the class of readable streams. The name \<^verbatim>\<open>Buffer\<close> is
  declared at the top of the file as \<^verbatim>\<open>let Buffer = require('buffer')\<close>, which binds it to
  the exports object of the module (the class is its property of the same name), and an
  \<^verbatim>\<open>instanceof\<close> whose right-hand side is not callable throws a \<^verbatim>\<open>TypeError\<close>,
  whatever the left-hand side is.
\<close>

datatype js_class = ReadableClass | BufferClass

datatype js_binding = Constructor js_class | ModuleExports

definition Stream_Readable :: js_binding where
  "Stream_Readable = Constructor ReadableClass"

definition Buffer :: js_binding where
  "Buffer = ModuleExports"

fun is_instance :: "content \<Rightarrow> js_class \<Rightarrow> bool" where
  "is_instance (CReadable _) ReadableClass = True"
| "is_instance (CBuffer _) BufferClass = True"
| "is_instance _ _ = False"

fun instanceof :: "content \<Rightarrow> js_binding \<Rightarrow> jsval + bool" where
  "instanceof c (Constructor k) = Inr (is_instance c k)"
| "instanceof c ModuleExports =
     Inl (JError ''TypeError'' ''Right-hand side of instanceof is not callable'')"

fun typeof_string :: "content \<Rightarrow> bool" where
  "typeof_string (CString _) = True"
| "typeof_string _ = False"

text \<open>
  The response is the list of the calls made on it: \<^verbatim>\<open>res.type\<close>, \<^verbatim>\<open>res.send\<close>,
  \<^verbatim>\<open>res.sendFile\<close>, a stream piped into it, \<^verbatim>\<open>res.end\<close> (with the error whose text is
  sent, if any) and \<^verbatim>\<open>res.sendError\<close>.
\<close>

datatype res_event =
    Type string
  | Send content
  | SendFile string
  | Piped string
  | End "jsval option"
  | SendError jsval

text \<open>
  The state of one request: \<^verbatim>\<open>req.cachePath\<close>, the files on disk, the existence checks
  made (\<^verbatim>\<open>fs.promises.access\<close>), the paths whose parent directory was created
  (\<^verbatim>\<open>fs.promises.mkdir(fsPath.dirname(path), {recursive: true})\<close>), the errors with which
  \<^verbatim>\<open>writeFile\<close> and \<^verbatim>\<open>mkdir\<close> fail if they do, the response, and how often
  \<^verbatim>\<open>next()\<close> was called.
\<close>

record mstate =
  cachePath :: "string option"
  files :: "string \<rightharpoonup> content"
  probes :: "string list"
  mkdirs :: "string list"
  write_fault :: "jsval option"
  mkdir_fault :: "jsval option"
  response :: "res_event list"
  nexts :: nat

record request =
  req_path :: string
  req_params :: "string \<rightharpoonup> string"

text \<open>
  \<^verbatim>\<open>options.enabled\<close> and \<^verbatim>\<open>options.path\<close> are a value or a function of the request.
  Such a function gives a value (at once or through a promise), throws while it is
  called, or returns a promise that rejects.
\<close>

datatype 'a resolution = Gives 'a | Throws jsval | Rejects jsval

datatype enabled_opt = EnabledValue bool | EnabledFn "request \<Rightarrow> bool resolution"

datatype path_opt = PathValue string | PathFn "request \<Rightarrow> string resolution"

record fc_settings =
  fc_path :: path_opt
  fc_enabled :: enabled_opt
  onCachedFile :: "request \<Rightarrow> string \<Rightarrow> mstate \<Rightarrow> jsval + mstate"
  onCreateFile :: "request \<Rightarrow> string \<Rightarrow> mstate \<Rightarrow> jsval + mstate"

record fc_opts =
  fo_path :: "path_opt option"
  fo_enabled :: "enabled_opt option"
  fo_onCachedFile :: "(request \<Rightarrow> string \<Rightarrow> mstate \<Rightarrow> jsval + mstate) option"
  fo_onCreateFile :: "(request \<Rightarrow> string \<Rightarrow> mstate \<Rightarrow> jsval + mstate) option"

definition res_sendFile :: "string \<Rightarrow> mstate \<Rightarrow> mstate" where
  "res_sendFile p st = st\<lparr>response := response st @ [SendFile p]\<rparr>"

definition res_send :: "content \<Rightarrow> mstate \<Rightarrow> mstate" where
  "res_send c st = st\<lparr>response := response st @ [Send c]\<rparr>"

definition res_sendError :: "jsval \<Rightarrow> mstate \<Rightarrow> mstate" where
  "res_sendError e st = st\<lparr>response := response st @ [SendError e]\<rparr>"

definition call_next :: "mstate \<Rightarrow> mstate" where
  "call_next st = st\<lparr>nexts := Suc (nexts st)\<rparr>"

text \<open>
  The defaults of the middleware: a path function that throws, \<^verbatim>\<open>enabled: true\<close>,
  \<^verbatim>\<open>res.sendFile(path)\<close> for a cached file and nothing before a new one.
\<close>

definition make_fc_settings :: "fc_opts \<Rightarrow> fc_settings" where
  "make_fc_settings p =
     \<lparr>fc_path = or_default (fo_path p)
        (PathFn (\<lambda>req. Throws (JError ''Error'' ''No path function in app.middleware.express.cacheFile''))),
      fc_enabled = or_default (fo_enabled p) (EnabledValue True),
      onCachedFile = or_default (fo_onCachedFile p) (\<lambda>req path st. Inr (res_sendFile path st)),
      onCreateFile = or_default (fo_onCreateFile p) (\<lambda>req path st. Inr st)\<rparr>"

text \<open>Truthiness of \<^verbatim>\<open>settings.enabled\<close> itself: a function is truthy.\<close>

fun enabled_truthy :: "enabled_opt \<Rightarrow> bool" where
  "enabled_truthy (EnabledValue b) = b"
| "enabled_truthy (EnabledFn f) = True"

section \<open>\<^verbatim>\<open>res.cacheSend\<close>\<close>

record cs_opts =
  cs_enabled :: "bool option"
  cs_type :: "string option"

text \<open>\<^verbatim>\<open>fs.promises.writeFile(path, content)\<close>; a \<^verbatim>\<open>null\<close> path is refused.\<close>

definition writeFile :: "string option \<Rightarrow> content \<Rightarrow> mstate \<Rightarrow> jsval + mstate" where
  "writeFile p c st =
     (case p of
        None \<Rightarrow> Inl (JError ''TypeError'' ''ERR_INVALID_ARG_TYPE'')
      | Some f \<Rightarrow>
          (case write_fault st of
             Some e \<Rightarrow> Inl e
           | None \<Rightarrow> Inr (st\<lparr>files := (files st)(f \<mapsto> c)\<rparr>)))"

text \<open>\<^verbatim>\<open>csSettings.type && res.type(csSettings.type)\<close>\<close>

definition set_type :: "string option \<Rightarrow> mstate \<Rightarrow> mstate" where
  "set_type t st =
     (case t of
        None \<Rightarrow> st
      | Some ty \<Rightarrow> if ty = [] then st else st\<lparr>response := response st @ [Type ty]\<rparr>)"

text \<open>
  The stream piped into a write stream on \<^verbatim>\<open>req.cachePath\<close>, then the file served; the
  promise rejects when the stream fails, and \<^verbatim>\<open>fs.createWriteStream(null)\<close> throws.
\<close>

definition stream_through_file :: "stream \<Rightarrow> mstate \<Rightarrow> (jsval + unit) \<times> mstate" where
  "stream_through_file str st =
     (case str of Stream d err \<Rightarrow>
        (case cachePath st of
           None \<Rightarrow> (Inl (JError ''TypeError'' ''ERR_INVALID_ARG_TYPE''), st)
         | Some f \<Rightarrow>
             (let st1 = st\<lparr>files := (files st)(f \<mapsto> CString d)\<rparr> in
              case err of
                Some e \<Rightarrow> (Inl e, st1)
              | None \<Rightarrow> (Inr (), res_sendFile f st1))))"

text \<open>
  The stream piped into the response. On a stream error the response is ended with the
  text of the error and the promise rejects with no reason (\<^verbatim>\<open>reject()\<close>).
\<close>

definition stream_to_response :: "stream \<Rightarrow> mstate \<Rightarrow> (jsval + unit) \<times> mstate" where
  "stream_to_response str st =
     (case str of Stream d err \<Rightarrow>
        (case err of
           None \<Rightarrow> (Inr (), st\<lparr>response := response st @ [Piped d, End None]\<rparr>)
         | Some e \<Rightarrow> (Inl Undefined, st\<lparr>response := response st @ [Piped d, End (Some e)]\<rparr>)))"

text \<open>
  Strings and buffers: \<^verbatim>\<open>settings.enabled && fs.promises.writeFile(req.cachePath, content)\<close>,
  then \<^verbatim>\<open>res.send(content)\<close>. The test is on the \<^verbatim>\<open>enabled\<close> of the middleware.
\<close>

definition write_and_send :: "fc_settings \<Rightarrow> content \<Rightarrow> mstate \<Rightarrow> (jsval + unit) \<times> mstate" where
  "write_and_send s c st =
     (if enabled_truthy (fc_enabled s) then
        (case writeFile (cachePath st) c st of
           Inl e \<Rightarrow> (Inl e, st)
         | Inr st1 \<Rightarrow> (Inr (), res_send c st1))
      else (Inr (), res_send c st))"

definition the_stream :: "content \<Rightarrow> stream" where
  "the_stream c = (case c of CReadable str \<Rightarrow> str | _ \<Rightarrow> Stream [] None)"

text \<open>
  \<^verbatim>\<open>res.cacheSend(content, options)\<close>. The result is that of the returned promise: \<open>Inl\<close>
  when it rejects. The conditions are evaluated in the order of the source, \<^verbatim>\<open>&&\<close> and
  \<^verbatim>\<open>||\<close> skipping their right operand as JavaScript does, and an operand that throws
  rejects the promise.
\<close>

definition cacheSend ::
  "fc_settings \<Rightarrow> content \<Rightarrow> cs_opts \<Rightarrow> mstate \<Rightarrow> (jsval + unit) \<times> mstate" where
  "cacheSend s c opt st0 =
     (let cs_en = or_default (cs_enabled opt) (cachePath st0 \<noteq> None);
          st = set_type (cs_type opt) st0
      in
      case (if cs_en then instanceof c Stream_Readable else Inr False) of
        Inl e \<Rightarrow> (Inl e, st)
      | Inr True \<Rightarrow> stream_through_file (the_stream c) st
      | Inr False \<Rightarrow>
          (case instanceof c Stream_Readable of
             Inl e \<Rightarrow> (Inl e, st)
           | Inr True \<Rightarrow> stream_to_response (the_stream c) st
           | Inr False \<Rightarrow>
               (case (if typeof_string c then Inr True else instanceof c Buffer) of
                  Inl e \<Rightarrow> (Inl e, st)
                | Inr True \<Rightarrow> write_and_send s c st
                | Inr False \<Rightarrow>
                    (Inl (JError ''Error''
                       ''Unknown content type passed to req.cacheSend() - must be a String|Buffer|Stream.Readable''),
                     st))))"

section \<open>\<^verbatim>\<open>app.middleware.express.cacheFile\<close>\<close>

text \<open>
  The final \<^verbatim>\<open>catch\<close> of the middleware: the string \<^verbatim>\<open>'NEXT'\<close> passes the request on,
  any other error is sent as an error response.
\<close>

definition on_error :: "jsval \<Rightarrow> mstate \<Rightarrow> mstate" where
  "on_error e st = (if e = JStr ''NEXT'' then call_next st else res_sendError e st)"

text \<open>
  \<^verbatim>\<open>Promise.all([enabled, path])\<close>, inside a \<^verbatim>\<open>then\<close> callback. The array is built in
  order: an \<^verbatim>\<open>enabled\<close> function that throws ends the callback before the \<^verbatim>\<open>path\<close>
  function is called, and a \<^verbatim>\<open>path\<close> function that throws ends it whatever the
  \<^verbatim>\<open>enabled\<close> promise does later. Once the array is built, a rejection of either
  promise rejects the whole; when both reject, the model takes the rejection of
  \<^verbatim>\<open>enabled\<close>, the first of the array.
\<close>

definition resolve_both :: "fc_settings \<Rightarrow> request \<Rightarrow> jsval + bool \<times> string" where
  "resolve_both s req =
     (case (case fc_enabled s of EnabledFn f \<Rightarrow> f req | EnabledValue b \<Rightarrow> Gives b) of
        Throws e \<Rightarrow> Inl e
      | en \<Rightarrow>
          (case (case fc_path s of PathFn f \<Rightarrow> f req | PathValue p \<Rightarrow> Gives p) of
             Throws e \<Rightarrow> Inl e
           | pa \<Rightarrow>
               (case en of
                  Rejects e \<Rightarrow> Inl e
                | Throws e \<Rightarrow> Inl e
                | Gives is_enabled \<Rightarrow>
                    (case pa of
                       Rejects e \<Rightarrow> Inl e
                     | Throws e \<Rightarrow> Inl e
                     | Gives path \<Rightarrow> Inr (is_enabled, path)))))"

text \<open>\<^verbatim>\<open>fs.promises.access(path, fs.constants.W_OK)\<close>, turned into a boolean.\<close>

definition access :: "string \<Rightarrow> mstate \<Rightarrow> bool \<times> mstate" where
  "access p st = (files st p \<noteq> None, st\<lparr>probes := probes st @ [p]\<rparr>)"

definition mkdir_parent :: "string \<Rightarrow> mstate \<Rightarrow> jsval + mstate" where
  "mkdir_parent p st =
     (case mkdir_fault st of
        Some e \<Rightarrow> Inl e
      | None \<Rightarrow> Inr (st\<lparr>mkdirs := mkdirs st @ [p]\<rparr>))"

text \<open>
  One request through the middleware, up to the point where the response is served, the
  request is passed to the next handler, or an error is sent.
\<close>

definition cacheFile :: "fc_settings \<Rightarrow> request \<Rightarrow> mstate \<Rightarrow> mstate" where
  "cacheFile s req st0 =
     (let st = st0\<lparr>cachePath := None\<rparr> in
      case resolve_both s req of
        Inl e \<Rightarrow> on_error e st
      | Inr (is_enabled, path) \<Rightarrow>
          if \<not> is_enabled then on_error (JStr ''NEXT'') st
          else
            (case access path st of
               (True, st1) \<Rightarrow>
                 (case onCachedFile s req path st1 of
                    Inl e \<Rightarrow> on_error e st1
                  | Inr st2 \<Rightarrow> st2)
             | (False, st1) \<Rightarrow>
                 (let st2 = st1\<lparr>cachePath := Some path\<rparr> in
                  case mkdir_parent path st2 of
                    Inl e \<Rightarrow> on_error e st2
                  | Inr st3 \<Rightarrow>
                      (case onCreateFile s req path st3 of
                         Inl e \<Rightarrow> on_error e st3
                       | Inr st4 \<Rightarrow> call_next st4))))"

section \<open>Notions used in the statements\<close>

text \<open>
  A read of the store is a miss when it succeeds and gives the sentinel back
  (\<^verbatim>\<open>res !== settings.invalidStore\<close> is false).
\<close>

definition is_miss :: "settings \<Rightarrow> world \<Rightarrow> bool" where
  "is_miss s w =
     (case cache_get (id_s s) (invalidStore s) w of
        Inl e \<Rightarrow> False
      | Inr res \<Rightarrow> \<not> strict_neq res (invalidStore s))"

text \<open>
  Invocation number \<open>n\<close> of the worker fails and the hooks let the loop go on: called
  with that error and the attempt counter, \<^verbatim>\<open>onRetry\<close> returns \<^verbatim>\<open>undefined\<close> without
  throwing, and the delay for that attempt is a finite number. The default
  \<^verbatim>\<open>onRetry\<close> and the default delay of 100 behave so.
\<close>

definition retried :: "settings \<Rightarrow> worker \<Rightarrow> nat \<Rightarrow> nat \<Rightarrow> bool" where
  "retried s wk n attempt =
     (case wk n of
        Inr v \<Rightarrow> False
      | Inl e \<Rightarrow>
          (case onRetry s e attempt of
             Inl x \<Rightarrow> False
           | Inr retryValue \<Rightarrow>
               retryValue = Undefined \<and>
               (case useDelay (retryDelay s) attempt of
                  Inl x \<Rightarrow> False
                | Inr d \<Rightarrow> isFinite d)))"

text \<open>The bodies handed to \<^verbatim>\<open>res.send\<close> so far.\<close>

definition sent :: "mstate \<Rightarrow> content list" where
  "sent st = concat (map (\<lambda>ev. case ev of Send c \<Rightarrow> [c] | _ \<Rightarrow> []) (response st))"

section \<open>Example inputs\<close>

text \<open>An empty store that accepts reads and writes; no worker invoked yet.\<close>

definition w0 :: world where
  "w0 = \<lparr>entries = Map.empty, sets = [], get_fault = None, set_fault = None,
     invocations = 0, timers = []\<rparr>"

definition boom :: jsval where
  "boom = JError ''Error'' ''boom''"

definition always_fails :: worker where
  "always_fails n = Inl boom"

definition fails_twice :: worker where
  "fails_twice n = (if n < 2 then Inl boom else Inr (JStr ''fresh''))"

text \<open>\<^verbatim>\<open>{id: 'k', rejectAs: 'FALLBACK'}\<close>\<close>

definition opts_rejectAs :: options where
  "opts_rejectAs =
     Plain (no_opts\<lparr>o_id := Some (JStr ''k''), o_rejectAs := Some (JStr ''FALLBACK'')\<rparr>)"

text \<open>\<^verbatim>\<open>{id: 'k', retry: r}\<close>\<close>

definition opts_retry :: "int \<Rightarrow> options" where
  "opts_retry r = Plain (no_opts\<lparr>o_id := Some (JStr ''k''), o_retry := Some r\<rparr>)"

text \<open>A store that holds \<^verbatim>\<open>'Y'\<close> under \<^verbatim>\<open>'k'\<close>, and \<^verbatim>\<open>{id: 'k', onCached: () => 'X'}\<close>.\<close>

definition w_hit :: world where
  "w_hit = w0\<lparr>entries := [JStr ''k'' \<mapsto> (JStr ''Y'', Some ''1h'')]\<rparr>"

definition opts_onCached :: options where
  "opts_onCached =
     Plain (no_opts\<lparr>o_id := Some (JStr ''k''), o_onCached := Some (\<lambda>v. Inr (JStr ''X''))\<rparr>)"

text \<open>\<^verbatim>\<open>{id: 'k', retry: 3, retryDelay: () => NaN}\<close>\<close>

definition opts_bad_delay :: options where
  "opts_bad_delay =
     Plain (no_opts\<lparr>o_id := Some (JStr ''k''), o_retry := Some 3,
       o_retryDelay := Some (Dynamic (\<lambda>attempt. Inr NaN))\<rparr>)"

text \<open>\<^verbatim>\<open>{id: 'k', retry: 3, onRetry: () => 'GIVE UP'}\<close>\<close>

definition opts_onRetry :: options where
  "opts_onRetry =
     Plain (no_opts\<lparr>o_id := Some (JStr ''k''), o_retry := Some 3,
       o_onRetry := Some (\<lambda>e attempt. Inr (JStr ''GIVE UP''))\<rparr>)"

text \<open>\<^verbatim>\<open>{id: 'k', retry: 2, onRetry: () => 'GIVE UP'}\<close>\<close>

definition opts_retry_hook :: options where
  "opts_retry_hook =
     Plain (no_opts\<lparr>o_id := Some (JStr ''k''), o_retry := Some 2,
       o_onRetry := Some (\<lambda>e attempt. Inr (JStr ''GIVE UP''))\<rparr>)"

text \<open>A worker that succeeds at once, and an empty store that refuses every write.\<close>

definition succeeds :: worker where
  "succeeds n = Inr (JStr ''fresh'')"

definition store_down :: jsval where
  "store_down = JError ''Error'' ''store down''"

definition w_refusing :: world where
  "w_refusing = w0\<lparr>set_fault := Some store_down\<rparr>"

text \<open>
  A fresh request on an empty disk, and on a disk that already holds the cached file;
  the middleware with a static path, with \<^verbatim>\<open>enabled: false\<close>, and with an
  \<^verbatim>\<open>enabled\<close> function that answers \<^verbatim>\<open>false\<close>.
\<close>

definition m0 :: mstate where
  "m0 = \<lparr>cachePath = None, files = Map.empty, probes = [], mkdirs = [],
     write_fault = None, mkdir_fault = None, response = [], nexts = 0\<rparr>"

definition m_cached :: mstate where
  "m_cached = m0\<lparr>files := [''/cache/a.png'' \<mapsto> CString ''old'']\<rparr>"

definition req0 :: request where
  "req0 = \<lparr>req_path = ''/api/cached/a'', req_params = [''id'' \<mapsto> ''a'']\<rparr>"

definition fc_static :: fc_settings where
  "fc_static = make_fc_settings \<lparr>fo_path = Some (PathValue ''/cache/a.png''),
     fo_enabled = None, fo_onCachedFile = None, fo_onCreateFile = None\<rparr>"

definition fc_disabled :: fc_settings where
  "fc_disabled = make_fc_settings \<lparr>fo_path = Some (PathValue ''/cache/a.png''),
     fo_enabled = Some (EnabledValue False), fo_onCachedFile = None, fo_onCreateFile = None\<rparr>"

definition fc_disabled_fn :: fc_settings where
  "fc_disabled_fn = make_fc_settings \<lparr>fo_path = Some (PathValue ''/cache/a.png''),
     fo_enabled = Some (EnabledFn (\<lambda>req. Gives False)), fo_onCachedFile = None,
     fo_onCreateFile = None\<rparr>"

definition no_cs :: cs_opts where
  "no_cs = \<lparr>cs_enabled = None, cs_type = None\<rparr>"

section \<open>The retry loop, one attempt at a time\<close>

declare tryResolve.simps [simp del]

lemmas ex_defs = w0_def boom_def always_fails_def fails_twice_def opts_rejectAs_def
  opts_retry_def w_hit_def opts_onCached_def opts_bad_delay_def opts_onRetry_def no_opts_def
  or_default_def opts_retry_hook_def succeeds_def store_down_def w_refusing_def

lemmas mw_defs = m0_def m_cached_def req0_def fc_static_def fc_disabled_def fc_disabled_fn_def
  no_cs_def make_fc_settings_def or_default_def

lemmas cacheFile_defs = cacheFile_def resolve_both_def access_def mkdir_parent_def on_error_def
  call_next_def res_sendError_def res_sendFile_def

lemma tryResolve_failed:
  assumes "wk (invocations w) = Inl e"
  shows "tryResolve s wk attempt w =
    (case on_failure s e attempt (w\<lparr>invocations := Suc (invocations w)\<rparr>) of
       Settle oc w2 \<Rightarrow> (oc, w2)
     | Again d \<Rightarrow>
         tryResolve s wk (Suc attempt)
           (w\<lparr>invocations := Suc (invocations w), timers := timers w @ [d]\<rparr>))"
  using assms by (subst tryResolve.simps) (simp add: run_worker_def split: step.splits)

lemma tryResolve_succeeded:
  assumes "wk (invocations w) = Inr v" and "set_fault w = None"
  shows "tryResolve s wk attempt w =
    (Resolved v,
     w\<lparr>invocations := Suc (invocations w),
       entries := (entries w)(id_s s \<mapsto> (v, Some (expiry s))),
       sets := sets w @ [(id_s s, v, Some (expiry s))]\<rparr>)"
  using assms by (subst tryResolve.simps) (simp add: run_worker_def cache_set_def)

lemma on_failure_retried:
  assumes "rejectAs s = None" and "retried s wk n (Suc attempt)"
    and "int (Suc attempt) \<le> retry s"
  shows "\<exists>e d. wk n = Inl e \<and> on_failure s e attempt w = Again d"
proof -
  from assms(2) obtain e d where "wk n = Inl e"
    and "onRetry s e (Suc attempt) = Inr Undefined"
    and "useDelay (retryDelay s) (Suc attempt) = Inr d" and "isFinite d"
    by (auto simp: retried_def split: sum.splits)
  with assms(1,3) have "wk n = Inl e \<and> on_failure s e attempt w = Again d"
    by (simp add: on_failure_def hasOwn_retry_def bool_gt_0_def)
  then show ?thesis by blast
qed

text \<open>
  \<open>k\<close> failures in a row that the hooks let pass take the loop from attempt \<open>a\<close> to
  attempt \<open>a + k\<close>, with \<open>k\<close> more invocations of the worker and \<open>k\<close> timers.
\<close>

lemma tryResolve_retries:
  assumes "rejectAs s = None"
    and "\<forall>i<k. retried s wk (invocations w + i) (Suc (attempt + i))"
    and "int (attempt + k) \<le> retry s"
  shows "\<exists>ds. length ds = k \<and>
           tryResolve s wk attempt w =
           tryResolve s wk (attempt + k)
             (w\<lparr>invocations := invocations w + k, timers := timers w @ ds\<rparr>)"
  using assms
proof (induction k arbitrary: attempt w)
  case 0
  then show ?case by simp
next
  case (Suc k)
  let ?w1 = "w\<lparr>invocations := Suc (invocations w)\<rparr>"
  from Suc.prems have "retried s wk (invocations w) (Suc attempt)"
    by (metis add.right_neutral zero_less_Suc)
  moreover from Suc.prems have "int (Suc attempt) \<le> retry s" by simp
  ultimately obtain e d where e: "wk (invocations w) = Inl e"
    and d: "on_failure s e attempt ?w1 = Again d"
    using on_failure_retried [OF Suc.prems(1)] by blast
  let ?w2 = "w\<lparr>invocations := Suc (invocations w), timers := timers w @ [d]\<rparr>"
  have step: "tryResolve s wk attempt w = tryResolve s wk (Suc attempt) ?w2"
    using tryResolve_failed [of wk w e s attempt] e d by simp
  have "\<forall>i<k. retried s wk (invocations ?w2 + i) (Suc (Suc attempt + i))"
  proof (intro allI impI)
    fix i assume "i < k"
    then have "Suc i < Suc k" by simp
    with Suc.prems(2) have "retried s wk (invocations w + Suc i) (Suc (attempt + Suc i))"
      by blast
    then show "retried s wk (invocations ?w2 + i) (Suc (Suc attempt + i))" by simp
  qed
  moreover have "int (Suc attempt + k) \<le> retry s" using Suc.prems(3) by simp
  ultimately obtain ds where ds: "length ds = k"
    and rest: "tryResolve s wk (Suc attempt) ?w2 =
      tryResolve s wk (Suc attempt + k)
        (?w2\<lparr>invocations := invocations ?w2 + k, timers := timers ?w2 @ ds\<rparr>)"
    using Suc.IH [OF Suc.prems(1), of ?w2 "Suc attempt"] by blast
  have "length (d # ds) = Suc k" using ds by simp
  moreover have "tryResolve s wk attempt w =
      tryResolve s wk (attempt + Suc k)
        (w\<lparr>invocations := invocations w + Suc k, timers := timers w @ (d # ds)\<rparr>)"
    using step rest by simp
  ultimately show ?case by blast
qed

lemma cache_function_miss:
  assumes "s = make_settings options" and "truthy (id_s s)" and "enabled s" and "is_miss s w"
  shows "cache_function options (Factory wk) w = tryResolve s wk 0 w"
  using assms
  by (auto simp: cache_function_def is_miss_def Let_def split: sum.splits)

lemma cache_function_hit:
  assumes "s = make_settings options" and "truthy (id_s s)" and "enabled s"
    and "get_fault w = None" and "entries w (id_s s) = Some (res, ex)"
    and "strict_neq res (invalidStore s)"
  shows "cache_function options (Factory wk) w = (on_hit s res, w)"
  using assms
  by (simp add: cache_function_def cache_get_def Let_def)

section \<open>Failure of the worker with \<^verbatim>\<open>rejectAs\<close> configured\<close>

text \<open>
  With the key \<^verbatim>\<open>rejectAs\<close> on the settings, a failed attempt never settles the call,
  at any attempt and whatever the value of the key is.
\<close>

lemma rejectAs_leaves_call_pending:
  assumes "rejectAs s = Some v" and "wk (invocations w) = Inl e"
  shows "fst (tryResolve s wk attempt w) = Pending"
  using assms tryResolve_failed [of wk w e s attempt]
  by (simp add: on_failure_def split: sum.splits)

text \<open>
  Claim C1: when \<^verbatim>\<open>rejectAs\<close> is configured and the first invocation of the worker fails,
  the call writes \<^verbatim>\<open>rejectAs\<close> to the store under the id and resolves with it, without
  retrying. The code, for \<^verbatim>\<open>{id: 'k', rejectAs: 'FALLBACK'}\<close>, a worker that always fails
  and an empty store: the worker is invoked once and \<^verbatim>\<open>'FALLBACK'\<close> is written under
  \<^verbatim>\<open>'k'\<close> (with no expiry), but the promise of the call is never resolved.
\<close>

theorem rejectAs_failure_never_resolves:
  "fst (cache_function opts_rejectAs (Factory always_fails) w0) = Pending \<and>
   sets (snd (cache_function opts_rejectAs (Factory always_fails) w0)) =
     [(JStr ''k'', JStr ''FALLBACK'', None)] \<and>
   invocations (snd (cache_function opts_rejectAs (Factory always_fails) w0)) = 1"
  by code_simp

section \<open>Retries\<close>

text \<open>
  Claim C4: with \<^verbatim>\<open>retry\<close> configured to \<open>r\<close> and no \<^verbatim>\<open>rejectAs\<close>, if the worker fails on
  every invocation, the call rejects with the error of the last attempt after exactly
  \<open>r + 1\<close> invocations of the worker.

  As worded the claim does not hold for every such call: the \<^verbatim>\<open>onRetry\<close> hook is part
  of the settings, and a hook that returns a value ends the call. With
  \<^verbatim>\<open>{id: 'k', retry: 2, onRetry: () => 'GIVE UP'}\<close>, no \<^verbatim>\<open>rejectAs\<close> and a worker that
  always fails, the call resolves with \<^verbatim>\<open>'GIVE UP'\<close> after one invocation.
\<close>

theorem retry_exhausted_needs_silent_hooks:
  "rejectAs (make_settings opts_retry_hook) = None \<and>
   retry (make_settings opts_retry_hook) = 2 \<and>
   is_miss (make_settings opts_retry_hook) w0 \<and>
   always_fails 0 = Inl boom \<and>
   fst (cache_function opts_retry_hook (Factory always_fails) w0) = Resolved (JStr ''GIVE UP'') \<and>
   invocations (snd (cache_function opts_retry_hook (Factory always_fails) w0)) = 1"
  by code_simp

text \<open>
  Claim C4, amended: with \<^verbatim>\<open>retry\<close> configured to \<open>r\<close> and no \<^verbatim>\<open>rejectAs\<close>, on an enabled
  call that misses the store, if the worker fails on every invocation and, at each of
  the first \<open>r\<close> failures, \<^verbatim>\<open>onRetry\<close> returns \<^verbatim>\<open>undefined\<close> without throwing and the
  delay is finite (as with the default hook and the default delay), the call rejects
  with the error of the last attempt after exactly \<open>r + 1\<close> invocations of the worker.
  The worker fails on the invocations \<open>0, ..., r\<close> of this call; \<open>e\<close> is the error of
  invocation \<open>r\<close>. Nothing is written to the store.
\<close>

theorem retry_exhausted_rejects_with_last_error:
  assumes "s = make_settings options"
    and "truthy (id_s s)" and "enabled s" and "is_miss s w"
    and "rejectAs s = None" and "retry s = int r"
    and "\<forall>i<r. retried s wk (invocations w + i) (Suc i)"
    and "wk (invocations w + r) = Inl e"
  shows "fst (cache_function options (Factory wk) w) = Rejected e \<and>
         invocations (snd (cache_function options (Factory wk) w)) = invocations w + r + 1 \<and>
         sets (snd (cache_function options (Factory wk) w)) = sets w"
proof -
  from assms(5,6,7) obtain ds where
    loop: "tryResolve s wk 0 w =
      tryResolve s wk r (w\<lparr>invocations := invocations w + r, timers := timers w @ ds\<rparr>)"
    using tryResolve_retries [of s r wk w 0] by auto
  let ?w = "w\<lparr>invocations := invocations w + r, timers := timers w @ ds\<rparr>"
  have "on_failure s e r (?w\<lparr>invocations := Suc (invocations ?w)\<rparr>) =
      Settle (Rejected e) (?w\<lparr>invocations := Suc (invocations ?w)\<rparr>)"
    using assms(5,6) by (simp add: on_failure_def hasOwn_retry_def bool_gt_0_def)
  then have "tryResolve s wk r ?w = (Rejected e, ?w\<lparr>invocations := Suc (invocations ?w)\<rparr>)"
    using tryResolve_failed [of wk ?w e s r] assms(8) by simp
  with loop cache_function_miss [OF assms(1-4), of wk] show ?thesis by simp
qed

text \<open>\<^verbatim>\<open>retry: 2\<close> and a worker that always fails: rejected after three invocations.\<close>

theorem retry_exhausted_rejects_with_last_error_witness:
  "fst (cache_function (opts_retry 2) (Factory always_fails) w0) = Rejected boom \<and>
   invocations (snd (cache_function (opts_retry 2) (Factory always_fails) w0)) = 3"
  using retry_exhausted_rejects_with_last_error
    [of "make_settings (opts_retry 2)" "opts_retry 2" w0 2 always_fails boom]
  by (simp add: ex_defs is_miss_def cache_get_def strict_neq_def retried_def)

text \<open>
  Claim C5: when an invocation of the worker succeeds on a cache miss, the result is
  written to the store under the id with the configured expiry and the call resolves
  with it; with \<^verbatim>\<open>retry: 3\<close> and a worker that fails twice and then succeeds, the call
  resolves with the success value after exactly three invocations.

  As worded the claim does not hold for every such call. The write to the store is
  inside the chain that the \<^verbatim>\<open>catch\<close> handler guards: when the store refuses it, the
  refusal is handled like a failure of the worker, nothing is stored and, with the
  default \<^verbatim>\<open>retry: 0\<close>, the call rejects with the error of the store. And with
  \<^verbatim>\<open>{id: 'k', retry: 3, onRetry: () => 'GIVE UP'}\<close> and a worker that fails twice and
  then succeeds, the call resolves with \<^verbatim>\<open>'GIVE UP'\<close> after the first failure.
\<close>

theorem worker_success_needs_store_and_silent_hooks:
  "is_miss (make_settings (opts_retry 0)) w_refusing \<and>
   succeeds 0 = Inr (JStr ''fresh'') \<and>
   fst (cache_function (opts_retry 0) (Factory succeeds) w_refusing) = Rejected store_down \<and>
   sets (snd (cache_function (opts_retry 0) (Factory succeeds) w_refusing)) = [] \<and>
   entries (snd (cache_function (opts_retry 0) (Factory succeeds) w_refusing)) (JStr ''k'') = None \<and>
   retry (make_settings opts_onRetry) = 3 \<and>
   fst (cache_function opts_onRetry (Factory fails_twice) w0) = Resolved (JStr ''GIVE UP'') \<and>
   invocations (snd (cache_function opts_onRetry (Factory fails_twice) w0)) = 1"
  by code_simp

text \<open>
  Claim C5, amended: when an invocation of the worker succeeds on a cache miss and the
  store accepts the write, the result is written to the store under the id with the
  configured expiry and the call resolves with it; with \<^verbatim>\<open>retry: 3\<close>, no
  \<^verbatim>\<open>rejectAs\<close> and a worker that fails twice and then succeeds, where at both failures
  \<^verbatim>\<open>onRetry\<close> returns \<^verbatim>\<open>undefined\<close> without throwing and the delay is finite (as with
  the defaults), the call resolves with the success value after exactly three
  invocations.

  The successful invocation is invocation \<open>k\<close> of an enabled call that misses the
  store. For \<open>k = 0\<close>, a success at once, nothing else is asked of the settings
  (\<^verbatim>\<open>rejectAs\<close> may be configured, \<^verbatim>\<open>retry\<close> may be anything). For \<open>k > 0\<close> the
  invocation is reached only after \<open>k\<close> failures that were retried: no \<^verbatim>\<open>rejectAs\<close>,
  \<open>k\<close> within the retry limit, and the hooks silent at each of them. The success \<open>v\<close>
  is then the one write to the store and the value of the call.
\<close>

theorem worker_success_is_stored_and_resolved:
  assumes "s = make_settings options"
    and "truthy (id_s s)" and "enabled s" and "is_miss s w"
    and "set_fault w = None"
    and "k = 0 \<or> (rejectAs s = None \<and> int k \<le> retry s)"
    and "\<forall>i<k. retried s wk (invocations w + i) (Suc i)"
    and "wk (invocations w + k) = Inr v"
  shows "fst (cache_function options (Factory wk) w) = Resolved v \<and>
         invocations (snd (cache_function options (Factory wk) w)) = invocations w + k + 1 \<and>
         sets (snd (cache_function options (Factory wk) w)) =
           sets w @ [(id_s s, v, Some (expiry s))] \<and>
         entries (snd (cache_function options (Factory wk) w)) (id_s s) =
           Some (v, Some (expiry s))"
proof (cases "k = 0")
  case True
  with assms(5,8) have "tryResolve s wk 0 w =
      (Resolved v,
       w\<lparr>invocations := Suc (invocations w),
         entries := (entries w)(id_s s \<mapsto> (v, Some (expiry s))),
         sets := sets w @ [(id_s s, v, Some (expiry s))]\<rparr>)"
    using tryResolve_succeeded [of wk w v s 0] by simp
  with True cache_function_miss [OF assms(1-4), of wk] show ?thesis by simp
next
  case False
  with assms(6) have no_rejectAs: "rejectAs s = None" and within: "int k \<le> retry s"
    by simp_all
  from no_rejectAs within assms(7) obtain ds where
    loop: "tryResolve s wk 0 w =
      tryResolve s wk k (w\<lparr>invocations := invocations w + k, timers := timers w @ ds\<rparr>)"
    using tryResolve_retries [of s k wk w 0] by auto
  let ?w = "w\<lparr>invocations := invocations w + k, timers := timers w @ ds\<rparr>"
  have "tryResolve s wk k ?w =
      (Resolved v,
       ?w\<lparr>invocations := Suc (invocations ?w),
          entries := (entries ?w)(id_s s \<mapsto> (v, Some (expiry s))),
          sets := sets ?w @ [(id_s s, v, Some (expiry s))]\<rparr>)"
    using tryResolve_succeeded [of wk ?w v s k] assms(5,8) by simp
  with loop cache_function_miss [OF assms(1-4), of wk] show ?thesis by simp
qed

text \<open>
  \<^verbatim>\<open>retry: 3\<close> and a worker that fails twice, then returns \<^verbatim>\<open>'fresh'\<close>; and
  \<^verbatim>\<open>rejectAs: 'FALLBACK'\<close> with a worker that returns \<^verbatim>\<open>'fresh'\<close> at once.
\<close>

theorem worker_success_is_stored_and_resolved_witness:
  "fst (cache_function (opts_retry 3) (Factory fails_twice) w0) = Resolved (JStr ''fresh'') \<and>
   invocations (snd (cache_function (opts_retry 3) (Factory fails_twice) w0)) = 3 \<and>
   sets (snd (cache_function (opts_retry 3) (Factory fails_twice) w0)) =
     [(JStr ''k'', JStr ''fresh'', Some ''1h'')] \<and>
   rejectAs (make_settings opts_rejectAs) = Some (JStr ''FALLBACK'') \<and>
   fst (cache_function opts_rejectAs (Factory succeeds) w0) = Resolved (JStr ''fresh'') \<and>
   sets (snd (cache_function opts_rejectAs (Factory succeeds) w0)) =
     [(JStr ''k'', JStr ''fresh'', Some ''1h'')]"
  using worker_success_is_stored_and_resolved
    [of "make_settings (opts_retry 3)" "opts_retry 3" w0 2 fails_twice "JStr ''fresh''"]
    worker_success_is_stored_and_resolved
    [of "make_settings opts_rejectAs" opts_rejectAs w0 0 succeeds "JStr ''fresh''"]
  by (simp add: ex_defs is_miss_def cache_get_def strict_neq_def retried_def)

section \<open>Cache hits\<close>

text \<open>
  Claim C6: on a hit (the store holds a value that is not the sentinel),
  \<^verbatim>\<open>onCached(settings, value)\<close> is run; a defined value it returns is the value of the
  call, otherwise the stored value is; the worker is never invoked and nothing is
  written. The world after the call is the world before it: no invocation, no write,
  no timer.
\<close>

theorem cache_hit_resolves_through_onCached:
  assumes "s = make_settings options"
    and "truthy (id_s s)" and "enabled s"
    and "get_fault w = None" and "entries w (id_s s) = Some (res, ex)"
    and "strict_neq res (invalidStore s)"
  shows "snd (cache_function options (Factory wk) w) = w \<and>
         (\<forall>output. onCached s res = Inr output \<longrightarrow>
            fst (cache_function options (Factory wk) w) =
              Resolved (if output \<noteq> Undefined then output else res))"
  using cache_function_hit [OF assms, of wk]
  by (simp add: on_hit_def)

text \<open>The store holds \<^verbatim>\<open>'Y'\<close> and \<^verbatim>\<open>onCached\<close> returns \<^verbatim>\<open>'X'\<close>.\<close>

theorem cache_hit_resolves_through_onCached_witness:
  "cache_function opts_onCached (Factory always_fails) w_hit = (Resolved (JStr ''X''), w_hit)"
  using cache_hit_resolves_through_onCached
    [of "make_settings opts_onCached" opts_onCached w_hit "JStr ''Y''" "Some ''1h''" always_fails]
  by (simp add: ex_defs strict_neq_def prod_eq_iff)

section \<open>The hooks of the retry loop\<close>

text \<open>
  Claim C7: in the retry loop, when the computed delay (\<^verbatim>\<open>retryDelay(attempt, settings)\<close>
  for a function, the configured value otherwise) is not finite, the call fails, it is
  not retried and no further attempt is scheduled. At any attempt of the loop: the call
  rejects with the message of the source, the worker has been invoked this once and
  no timer is set.
\<close>

theorem non_finite_delay_rejects_without_retry:
  assumes "rejectAs s = None"
    and "wk (invocations w) = Inl e"
    and "int (Suc attempt) \<le> retry s"
    and "onRetry s e (Suc attempt) = Inr Undefined"
    and "useDelay (retryDelay s) (Suc attempt) = Inr d"
    and "\<not> isFinite d"
  shows "tryResolve s wk attempt w =
           (Rejected (JStr ''Got non-numeric delay for retryDelay''),
            w\<lparr>invocations := Suc (invocations w)\<rparr>)"
  using assms tryResolve_failed [of wk w e s attempt]
  by (simp add: on_failure_def hasOwn_retry_def bool_gt_0_def)

theorem non_finite_delay_rejects_without_retry_witness:
  "tryResolve (make_settings opts_bad_delay) always_fails 0 w0 =
     (Rejected (JStr ''Got non-numeric delay for retryDelay''), w0\<lparr>invocations := 1\<rparr>)"
  using non_finite_delay_rejects_without_retry
    [of "make_settings opts_bad_delay" always_fails w0 boom 0 NaN]
  by (simp add: ex_defs)

text \<open>
  Claim C8: when, on a failure of the worker that may be retried, \<^verbatim>\<open>onRetry\<close> returns a
  defined value, the call resolves with that value at once, no further attempt occurs
  and the value is not written to the store. At any attempt of the loop: the world
  after the call differs from the world before it by this one invocation of the worker.
\<close>

theorem onRetry_value_resolves_unstored:
  assumes "rejectAs s = None"
    and "wk (invocations w) = Inl e"
    and "int (Suc attempt) \<le> retry s"
    and "onRetry s e (Suc attempt) = Inr retryValue"
    and "retryValue \<noteq> Undefined"
  shows "tryResolve s wk attempt w =
           (Resolved retryValue, w\<lparr>invocations := Suc (invocations w)\<rparr>)"
  using assms tryResolve_failed [of wk w e s attempt]
  by (simp add: on_failure_def hasOwn_retry_def bool_gt_0_def)

theorem onRetry_value_resolves_unstored_witness:
  "tryResolve (make_settings opts_onRetry) always_fails 0 w0 =
     (Resolved (JStr ''GIVE UP''), w0\<lparr>invocations := 1\<rparr>)"
  using onRetry_value_resolves_unstored
    [of "make_settings opts_onRetry" always_fails w0 boom 0 "JStr ''GIVE UP''"]
  by (simp add: ex_defs)

section \<open>\<^verbatim>\<open>cacheSend\<close> by the shape of the content\<close>

lemma cachePath_set_type [simp]: "cachePath (set_type t st) = cachePath st"
  by (simp add: set_type_def split: option.splits)

lemma files_set_type [simp]: "files (set_type t st) = files st"
  by (simp add: set_type_def split: option.splits)

lemma write_fault_set_type [simp]: "write_fault (set_type t st) = write_fault st"
  by (simp add: set_type_def split: option.splits)

lemma sent_set_type [simp]: "sent (set_type t st) = sent st"
  by (simp add: set_type_def sent_def split: option.splits)

lemma sent_res_send [simp]: "sent (res_send c st) = sent st @ [c]"
  by (simp add: res_send_def sent_def)

lemma sent_files_update [simp]: "sent (st\<lparr>files := f\<rparr>) = sent st"
  by (simp add: sent_def)

lemma files_res_send [simp]: "files (res_send c st) = files st"
  by (simp add: res_send_def)

lemma cacheSend_not_stream:
  assumes "\<not> is_instance c ReadableClass"
  shows "cacheSend s c opt st =
    (case (if typeof_string c then Inr True else instanceof c Buffer) of
       Inl e \<Rightarrow> (Inl e, set_type (cs_type opt) st)
     | Inr True \<Rightarrow> write_and_send s c (set_type (cs_type opt) st)
     | Inr False \<Rightarrow>
         (Inl (JError ''Error''
            ''Unknown content type passed to req.cacheSend() - must be a String|Buffer|Stream.Readable''),
          set_type (cs_type opt) st))"
  using assms by (simp add: cacheSend_def Stream_Readable_def Let_def)

text \<open>
  A string, with a cache path staged and a disk that takes the write: the string is
  written to the staged path and sent.
\<close>

lemma cacheSend_string_staged:
  assumes "cachePath st = Some p" and "enabled_truthy (fc_enabled s)"
    and "write_fault st = None"
  shows "fst (cacheSend s (CString body) opt st) = Inr () \<and>
         files (snd (cacheSend s (CString body) opt st)) p = Some (CString body) \<and>
         sent (snd (cacheSend s (CString body) opt st)) = sent st @ [CString body]"
  using assms
  by (simp add: cacheSend_not_stream write_and_send_def writeFile_def)

text \<open>
  Content that is neither a stream nor a string reaches the test against \<^verbatim>\<open>Buffer\<close>,
  which throws: a buffer is neither written nor sent, and the last branch of the source
  is never taken.
\<close>

lemma cacheSend_not_string_not_stream:
  assumes "\<not> is_instance c ReadableClass" and "\<not> typeof_string c"
  shows "cacheSend s c opt st =
    (Inl (JError ''TypeError'' ''Right-hand side of instanceof is not callable''),
     set_type (cs_type opt) st)"
  using assms by (simp add: cacheSend_not_stream Buffer_def)

text \<open>
  Claim C2: on a request whose cache path has been staged, \<^verbatim>\<open>cacheSend\<close> with a string or
  a byte buffer persists the content to the staged path and sends it as the response
  body. The code, for the buffer of the bytes of \<^verbatim>\<open>body\<close> after a miss on
  \<^verbatim>\<open>/cache/a.png\<close>: the path is staged, the promise rejects with a \<^verbatim>\<open>TypeError\<close>,
  no file is written and nothing is sent.
\<close>

theorem cacheSend_buffer_rejects_unwritten_unsent:
  "cachePath (cacheFile fc_static req0 m0) = Some ''/cache/a.png'' \<and>
   fst (cacheSend fc_static (CBuffer [98, 111, 100, 121]) no_cs (cacheFile fc_static req0 m0)) =
     Inl (JError ''TypeError'' ''Right-hand side of instanceof is not callable'') \<and>
   files (snd (cacheSend fc_static (CBuffer [98, 111, 100, 121]) no_cs
     (cacheFile fc_static req0 m0))) ''/cache/a.png'' = None \<and>
   response (snd (cacheSend fc_static (CBuffer [98, 111, 100, 121]) no_cs
     (cacheFile fc_static req0 m0))) = []"
  by (simp add: cacheSend_not_string_not_stream mw_defs cacheFile_defs set_type_def)

text \<open>
  Claim C3: \<^verbatim>\<open>cacheSend\<close> with content that is neither a readable stream, a string nor a
  byte buffer fails with the error \<^verbatim>\<open>Unknown content type\<close>. The code, for the number
  \<^verbatim>\<open>42\<close>: the promise rejects with the \<^verbatim>\<open>TypeError\<close> of the test against \<^verbatim>\<open>Buffer\<close>,
  not with that error.
\<close>

theorem cacheSend_number_rejects_with_TypeError:
  "cacheSend fc_static (COther (JNum (Fin 42))) no_cs m0 =
     (Inl (JError ''TypeError'' ''Right-hand side of instanceof is not callable''), m0)"
  by (simp add: cacheSend_not_string_not_stream mw_defs set_type_def)

text \<open>
  Claim C10: \<^verbatim>\<open>cacheSend\<close> with a string, on a request with no cache path staged and a
  middleware whose \<^verbatim>\<open>enabled\<close> setting is truthy, rejects and never sends the content:
  the write is decided by the setting of the middleware, not by the \<^verbatim>\<open>enabled\<close> option
  of the call (any \<open>opt\<close>), and \<^verbatim>\<open>writeFile\<close> refuses the \<^verbatim>\<open>null\<close> path.
\<close>

theorem cacheSend_string_unstaged_rejects_unsent:
  assumes "cachePath st = None" and "enabled_truthy (fc_enabled s)"
  shows "fst (cacheSend s (CString body) opt st) =
           Inl (JError ''TypeError'' ''ERR_INVALID_ARG_TYPE'') \<and>
         sent (snd (cacheSend s (CString body) opt st)) = sent st \<and>
         files (snd (cacheSend s (CString body) opt st)) = files st"
  using assms
  by (simp add: cacheSend_not_stream write_and_send_def writeFile_def)

text \<open>
  The \<^verbatim>\<open>enabled\<close> function of the middleware answers \<^verbatim>\<open>false\<close>, the request is passed on
  with no cache path, and the handler calls \<^verbatim>\<open>cacheSend('body')\<close>.
\<close>

theorem cacheSend_string_unstaged_rejects_unsent_witness:
  "cachePath (cacheFile fc_disabled_fn req0 m0) = None \<and>
   fst (cacheSend fc_disabled_fn (CString ''body'') no_cs (cacheFile fc_disabled_fn req0 m0)) =
     Inl (JError ''TypeError'' ''ERR_INVALID_ARG_TYPE'') \<and>
   sent (snd (cacheSend fc_disabled_fn (CString ''body'') no_cs
     (cacheFile fc_disabled_fn req0 m0))) = []"
  using cacheSend_string_unstaged_rejects_unsent
    [of "cacheFile fc_disabled_fn req0 m0" fc_disabled_fn "''body''" no_cs]
  by (simp add: mw_defs cacheFile_defs sent_def)

section \<open>The middleware when it is disabled\<close>

text \<open>
  Claim C9: when \<^verbatim>\<open>enabled\<close> resolves to false, no existence check is made and the next
  handler is called, also when a file exists at the resolved path; the \<^verbatim>\<open>'NEXT'\<close> signal
  does not become an error response. The request state after the middleware is the
  state before it with \<^verbatim>\<open>req.cachePath\<close> reset and one more call of \<^verbatim>\<open>next()\<close>: the
  list of existence checks and the response are untouched.
\<close>

theorem disabled_skips_probe_and_calls_next:
  assumes "resolve_both s req = Inr (False, p)"
  shows "cacheFile s req st = st\<lparr>cachePath := None, nexts := Suc (nexts st)\<rparr>"
  using assms by (simp add: cacheFile_def on_error_def call_next_def)

text \<open>\<^verbatim>\<open>enabled: false\<close> while the file is on disk.\<close>

theorem disabled_skips_probe_and_calls_next_witness:
  "files m_cached ''/cache/a.png'' = Some (CString ''old'') \<and>
   cacheFile fc_disabled req0 m_cached = m_cached\<lparr>cachePath := None, nexts := 1\<rparr> \<and>
   probes (cacheFile fc_disabled req0 m_cached) = [] \<and>
   response (cacheFile fc_disabled req0 m_cached) = []"
  using disabled_skips_probe_and_calls_next [of fc_disabled req0 "''/cache/a.png''" m_cached]
  by (simp add: mw_defs resolve_both_def)

end
